theory Spec2Isabelle
  imports Main "HOL-Library.Sublist"
begin

section \<open>Data model of \<^verbatim>\<open>app.py\<close>\<close>

text \<open>
  The request payload \<^verbatim>\<open>FertilizerInput\<close> (a pydantic model of eight required
  integers). Python integers are unbounded, hence \<^typ>\<open>int\<close>.
\<close>

record FertilizerInput =
  Temparature :: int
  Humidity :: int
  Moisture :: int
  Soil_Type_ID :: int
  Crop_Type_ID :: int
  Nitrogen :: int
  Potassium :: int
  Phosphorous :: int

text \<open>
  A forward category mapping is a Python dict from a name to its integer code. The
  dict is kept as an association list in insertion order, since both
  \<^verbatim>\<open>get_categories\<close> and the construction of the reverse mappings iterate over
  \<^verbatim>\<open>.items()\<close>. The unpickled \<^verbatim>\<open>backend_mappings\<close> dict holds the three
  mappings under three fixed keys; it is a record of three fields here.
\<close>

type_synonym category_map = "(string \<times> int) list"

record mappings =
  soil_type_map :: category_map
  crop_type_map :: category_map
  fertilizer_map :: category_map

text \<open>
  The single-row pandas DataFrame \<^verbatim>\<open>input_df\<close>: its columns in order, each with
  the value of row 0. Column labels may repeat (pandas allows it).
\<close>

type_synonym dataframe = "(string \<times> int) list"

text \<open>
  A Python exception other than \<^verbatim>\<open>HTTPException\<close> is kept as its message
  \<^verbatim>\<open>str(e)\<close>; an \<^verbatim>\<open>HTTPException\<close> carries its status code and detail.
\<close>

datatype py_exception = PyException (message: string)

datatype http_exception = HTTPException (status_code: int) (detail: string)

text \<open>
  The fitted scaler and the trained classifier are external objects (scikit-learn); the
  program only calls \<^verbatim>\<open>scaler.transform\<close> and \<^verbatim>\<open>model.predict\<close>. They are
  parameters of the model: functions that return a value or raise. \<open>'s\<close> is the type
  of the scaled array. Each invocation is recorded in a call log.
\<close>

datatype 's call = Transform dataframe | Predict 's

text \<open>The module-level state that is set up once at import time (lines 25 to 40).\<close>

record 's globals =
  model :: "'s \<Rightarrow> py_exception + int list"
  scaler :: "dataframe \<Rightarrow> py_exception + 's"
  model_columns :: "string list"
  backend_mappings :: mappings
  reverse_soil_map :: "int \<rightharpoonup> string"
  reverse_crop_map :: "int \<rightharpoonup> string"
  reverse_fertilizer_map :: "int \<rightharpoonup> string"

text \<open>
  What one call of the handler yields: the response (a raised
  \<^verbatim>\<open>HTTPException\<close> on the left, the value of the key
  \<^verbatim>\<open>recommended_fertilizer\<close> on the right) and the calls made to the scaler and
  the model.
\<close>

record 's outcome =
  response :: "http_exception + string"
  calls :: "'s call list"

section \<open>Start-up: loading the artifacts\<close>

text \<open>
  \<^verbatim>\<open>{v: k for k, v in m.items()}\<close>: the comprehension walks the items in insertion
  order and stores each code with its name; a later item with the same code replaces
  the earlier one.
\<close>

definition reverse_map :: "category_map \<Rightarrow> (int \<rightharpoonup> string)" where
  "reverse_map m = fold (\<lambda>(k, v) r. r(v \<mapsto> k)) m Map.empty"

text \<open>
  The four pickle files; \<open>None\<close> stands for a file that does not exist, on which
  \<^verbatim>\<open>open\<close> raises \<^verbatim>\<open>FileNotFoundError\<close>.
\<close>

record 's pickles =
  model_pkl :: "('s \<Rightarrow> py_exception + int list) option"
  scaler_pkl :: "(dataframe \<Rightarrow> py_exception + 's) option"
  columns_pkl :: "string list option"
  mappings_pkl :: "mappings option"

text \<open>
  The \<^verbatim>\<open>RuntimeError\<close> raised at line 40; its argument here is the name of the file
  that was not found (the message of the source embeds the
  \<^verbatim>\<open>FileNotFoundError\<close> of that file).
\<close>

datatype startup_error = RuntimeError string

definition load_artifacts :: "'s pickles \<Rightarrow> startup_error + 's globals" where
  "load_artifacts p =
    (case model_pkl p of
       None \<Rightarrow> Inl (RuntimeError ''Best_Fertilizer_Recommendation_Model.pkl'')
     | Some m \<Rightarrow>
    (case scaler_pkl p of
       None \<Rightarrow> Inl (RuntimeError ''fertilizer_scaler.pkl'')
     | Some s \<Rightarrow>
    (case columns_pkl p of
       None \<Rightarrow> Inl (RuntimeError ''fertilizer_model_columns.pkl'')
     | Some cols \<Rightarrow>
    (case mappings_pkl p of
       None \<Rightarrow> Inl (RuntimeError ''fertilizer_backend_mappings.pkl'')
     | Some bm \<Rightarrow>
         Inr \<lparr> model = m, scaler = s, model_columns = cols, backend_mappings = bm,
               reverse_soil_map = reverse_map (soil_type_map bm),
               reverse_crop_map = reverse_map (crop_type_map bm),
               reverse_fertilizer_map = reverse_map (fertilizer_map bm) \<rparr>))))"

section \<open>The feature row\<close>

text \<open>\<^verbatim>\<open>pd.DataFrame(0, index=[0], columns=model_columns)\<close>: one row of zeros.\<close>

definition DataFrame0 :: "string list \<Rightarrow> dataframe" where
  "DataFrame0 cols = map (\<lambda>c. (c, 0)) cols"

definition columns :: "dataframe \<Rightarrow> string list" where
  "columns df = map fst df"

text \<open>
  \<^verbatim>\<open>df[key] = v\<close> with a scalar \<open>v\<close>. pandas sets every column labelled
  \<open>key\<close>; when no column has that label it does not raise: it appends a new column
  \<open>key\<close> after the existing ones.
\<close>

definition setitem :: "string \<Rightarrow> int \<Rightarrow> dataframe \<Rightarrow> dataframe" where
  "setitem key v df =
    (if key \<in> set (columns df)
     then map (\<lambda>(c, x). if c = key then (c, v) else (c, x)) df
     else df @ [(key, v)])"

text \<open>Lines 82 to 88: the frame of zeros and the six numeric assignments.\<close>

definition numeric_assignments :: "string list \<Rightarrow> FertilizerInput \<Rightarrow> dataframe" where
  "numeric_assignments cols data =
    (let input_df = DataFrame0 cols;
         input_df = setitem ''Temparature'' (Temparature data) input_df;
         input_df = setitem ''Humidity'' (Humidity data) input_df;
         input_df = setitem ''Moisture'' (Moisture data) input_df;
         input_df = setitem ''Nitrogen'' (Nitrogen data) input_df;
         input_df = setitem ''Potassium'' (Potassium data) input_df;
         input_df = setitem ''Phosphorous'' (Phosphorous data) input_df
     in input_df)"

text \<open>Lines 96 to 102: the two guarded one-hot assignments.\<close>

definition one_hot_assignments :: "string \<Rightarrow> string \<Rightarrow> dataframe \<Rightarrow> dataframe" where
  "one_hot_assignments soil_name crop_name df =
    (let soil_col = ''Soil_Type_'' @ soil_name;
         crop_col = ''Crop_Type_'' @ crop_name;
         input_df = (if soil_col \<in> set (columns df) then setitem soil_col 1 df else df);
         input_df = (if crop_col \<in> set (columns input_df)
                     then setitem crop_col 1 input_df else input_df)
     in input_df)"

text \<open>The row that reaches the scaler, for resolved category names.\<close>

definition feature_row ::
  "string list \<Rightarrow> FertilizerInput \<Rightarrow> string \<Rightarrow> string \<Rightarrow> dataframe" where
  "feature_row cols data soil_name crop_name =
    one_hot_assignments soil_name crop_name (numeric_assignments cols data)"

section \<open>The request handlers\<close>

text \<open>
  \<^verbatim>\<open>not x\<close> for \<open>x\<close> the result of \<^verbatim>\<open>dict.get\<close> on a map to strings:
  true on \<^verbatim>\<open>None\<close> and on the empty string.
\<close>

definition py_not :: "string option \<Rightarrow> bool" where
  "py_not x = (x = None \<or> x = Some [])"

text \<open>
  The handler \<^verbatim>\<open>except Exception\<close> of line 114: any other exception becomes a
  500 response whose detail embeds the message.
\<close>

definition internal_error :: "py_exception \<Rightarrow> http_exception" where
  "internal_error e =
    HTTPException 500 (''An internal server error occurred: '' @ message e)"

text \<open>
  Lines 104 to 111: scale, predict, take element 0 of the prediction (an
  \<^verbatim>\<open>IndexError\<close> on an empty array), decode the class.
\<close>

definition predict_and_decode :: "'s globals \<Rightarrow> dataframe \<Rightarrow> 's outcome" where
  "predict_and_decode g input_df =
    (case scaler g input_df of
       Inl e \<Rightarrow>
         \<lparr> response = Inl (internal_error e), calls = [Transform input_df] \<rparr>
     | Inr input_scaled \<Rightarrow>
    (case model g input_scaled of
       Inl e \<Rightarrow>
         \<lparr> response = Inl (internal_error e),
           calls = [Transform input_df, Predict input_scaled] \<rparr>
     | Inr [] \<Rightarrow>
         \<lparr> response = Inl (internal_error
             (PyException ''index 0 is out of bounds for axis 0 with size 0'')),
           calls = [Transform input_df, Predict input_scaled] \<rparr>
     | Inr (predicted_fertilizer_num # _) \<Rightarrow>
         (let recommendation = reverse_fertilizer_map g predicted_fertilizer_num
          in if py_not recommendation
             then \<lparr> response = Inl (HTTPException 500
                       ''Could not map prediction to a fertilizer name.''),
                     calls = [Transform input_df, Predict input_scaled] \<rparr>
             else \<lparr> response = Inr (the recommendation),
                     calls = [Transform input_df, Predict input_scaled] \<rparr>)))"

text \<open>
  \<^verbatim>\<open>recommend_fertilizer\<close>, lines 80 to 115, as a function of the loaded
  artifacts and the request. The two uses of \<open>the\<close> are on values that the guard
  \<open>py_not\<close> has shown to be \<open>Some\<close>.
\<close>

definition recommend_fertilizer :: "'s globals \<Rightarrow> FertilizerInput \<Rightarrow> 's outcome" where
  "recommend_fertilizer g data =
    (let input_df = numeric_assignments (model_columns g) data;
         soil_name = reverse_soil_map g (Soil_Type_ID data);
         crop_name = reverse_crop_map g (Crop_Type_ID data)
     in if py_not soil_name \<or> py_not crop_name
        then \<lparr> response = Inl (HTTPException 400
                  ''Invalid Soil Type or Crop Type ID provided.''),
                calls = [] \<rparr>
        else predict_and_decode g
               (one_hot_assignments (the soil_name) (the crop_name) input_df))"

section \<open>The process state as a store\<close>





















section \<open>Vocabulary of the specification\<close>

text \<open>The six numeric column names, in the order in which the handler assigns them.\<close>

definition numeric_columns :: "string list" where
  "numeric_columns =
    [''Temparature'', ''Humidity'', ''Moisture'', ''Nitrogen'', ''Potassium'',
     ''Phosphorous'']"

text \<open>The six numeric assignments as a list of column and value.\<close>

definition numeric_values :: "FertilizerInput \<Rightarrow> (string \<times> int) list" where
  "numeric_values data =
    [(''Temparature'', Temparature data), (''Humidity'', Humidity data),
     (''Moisture'', Moisture data), (''Nitrogen'', Nitrogen data),
     (''Potassium'', Potassium data), (''Phosphorous'', Phosphorous data)]"

text \<open>
  A soil (crop) one-hot column is a column whose label starts with
  \<^verbatim>\<open>Soil_Type_\<close> (\<^verbatim>\<open>Crop_Type_\<close>).
\<close>

definition soil_column :: "string \<Rightarrow> bool" where
  "soil_column c = prefix ''Soil_Type_'' c"

definition crop_column :: "string \<Rightarrow> bool" where
  "crop_column c = prefix ''Crop_Type_'' c"

text \<open>The names of a category domain: the keys of its forward mapping.\<close>

definition names_of :: "category_map \<Rightarrow> string set" where
  "names_of m = fst ` set m"

text \<open>
  The module-level state right after a start-up that found all four files.
\<close>

definition startup_state ::
  "('s \<Rightarrow> py_exception + int list) \<Rightarrow> (dataframe \<Rightarrow> py_exception + 's) \<Rightarrow>
   string list \<Rightarrow> mappings \<Rightarrow> 's globals" where
  "startup_state m s cols bm =
    \<lparr> model = m, scaler = s, model_columns = cols, backend_mappings = bm,
      reverse_soil_map = reverse_map (soil_type_map bm),
      reverse_crop_map = reverse_map (crop_type_map bm),
      reverse_fertilizer_map = reverse_map (fertilizer_map bm) \<rparr>"

text \<open>The values that the specification's scenario expects in each column.\<close>

definition scenario_value :: "string \<Rightarrow> int" where
  "scenario_value c =
    (if c = ''Temparature'' then 34 else if c = ''Humidity'' then 65
     else if c = ''Moisture'' then 54 else if c = ''Nitrogen'' then 38
     else if c = ''Potassium'' then 0 else if c = ''Phosphorous'' then 0
     else if c = ''Soil_Type_Loamy'' then 1 else if c = ''Crop_Type_Sugarcane'' then 1
     else 0)"

section \<open>Concrete artifacts and requests\<close>

text \<open>The example request of the pydantic model (lines 55 to 64).\<close>

definition example_input :: FertilizerInput where
  "example_input =
    \<lparr> Temparature = 34, Humidity = 65, Moisture = 54, Soil_Type_ID = 2,
      Crop_Type_ID = 10, Nitrogen = 38, Potassium = 0, Phosphorous = 0 \<rparr>"

text \<open>
  Mappings and a column list as a training run with one-hot encoding that drops the
  first category of each domain leaves them: \<^verbatim>\<open>Black\<close> and \<^verbatim>\<open>Barley\<close>
  have a code and no column.
\<close>

definition example_mappings :: mappings where
  "example_mappings =
    \<lparr> soil_type_map = [(''Black'', 0), (''Loamy'', 2), (''Sandy'', 4)],
      crop_type_map = [(''Barley'', 0), (''Sugarcane'', 10), (''Wheat'', 11)],
      fertilizer_map = [(''Urea'', 0), (''DAP'', 1)] \<rparr>"

definition example_columns :: "string list" where
  "example_columns =
    [''Temparature'', ''Humidity'', ''Moisture'', ''Nitrogen'', ''Potassium'',
     ''Phosphorous'', ''Soil_Type_Loamy'', ''Soil_Type_Sandy'', ''Crop_Type_Sugarcane'',
     ''Crop_Type_Wheat'']"

text \<open>
  A scaler that insists on the columns it was fitted on and a classifier that answers
  from the nitrogen reading; the scaled array is the list of the row's values.
\<close>

definition example_scaler :: "dataframe \<Rightarrow> py_exception + int list" where
  "example_scaler df =
    (if columns df = example_columns then Inr (map snd df)
     else Inl (PyException ''The feature names should match those that were passed during fit.''))"

definition example_model :: "int list \<Rightarrow> py_exception + int list" where
  "example_model xs = Inr [if 30 \<le> sum_list (take 1 (drop 3 xs)) then 0 else 1]"

definition example_pickles :: "int list pickles" where
  "example_pickles =
    \<lparr> model_pkl = Some example_model, scaler_pkl = Some example_scaler,
      columns_pkl = Some example_columns, mappings_pkl = Some example_mappings \<rparr>"

definition example_globals :: "int list globals" where
  "example_globals =
    startup_state example_model example_scaler example_columns example_mappings"

text \<open>A request for a soil and a crop that both have a code and no column.\<close>

definition black_barley_input :: FertilizerInput where
  "black_barley_input = example_input \<lparr> Soil_Type_ID := 0, Crop_Type_ID := 0 \<rparr>"

text \<open>A request whose soil ID is in no mapping.\<close>

definition unknown_soil_input :: FertilizerInput where
  "unknown_soil_input = example_input \<lparr> Soil_Type_ID := 999 \<rparr>"

text \<open>
  A scaler that was fitted without column names and takes any row, and a classifier
  with a constant answer.
\<close>

definition lenient_scaler :: "dataframe \<Rightarrow> py_exception + int list" where
  "lenient_scaler df = Inr (map snd df)"

definition constant_model :: "int \<Rightarrow> int list \<Rightarrow> py_exception + int list" where
  "constant_model k xs = Inr [k]"

text \<open>A column list that lacks \<^verbatim>\<open>Temparature\<close>.\<close>

definition drifted_columns :: "string list" where
  "drifted_columns =
    [''Humidity'', ''Moisture'', ''Nitrogen'', ''Potassium'', ''Phosphorous'',
     ''Soil_Type_Loamy'', ''Crop_Type_Sugarcane'']"

definition drifted_pickles :: "int list pickles" where
  "drifted_pickles =
    \<lparr> model_pkl = Some (constant_model 0), scaler_pkl = Some lenient_scaler,
      columns_pkl = Some drifted_columns, mappings_pkl = Some example_mappings \<rparr>"

definition drifted_globals :: "int list globals" where
  "drifted_globals =
    startup_state (constant_model 0) lenient_scaler drifted_columns example_mappings"

text \<open>The same column list with the scaler that insists on its ten columns.\<close>

definition strict_drifted_globals :: "int list globals" where
  "strict_drifted_globals =
    startup_state (constant_model 0) example_scaler drifted_columns example_mappings"

text \<open>Forward mappings in which two soil names share the code 1.\<close>

definition colliding_mappings :: mappings where
  "colliding_mappings =
    \<lparr> soil_type_map = [(''Clayey'', 1), (''Sandy'', 1)],
      crop_type_map = [(''Sugarcane'', 10), (''Wheat'', 11)],
      fertilizer_map = [(''Urea'', 0), (''DAP'', 1)] \<rparr>"

definition colliding_pickles :: "int list pickles" where
  "colliding_pickles =
    \<lparr> model_pkl = Some example_model, scaler_pkl = Some example_scaler,
      columns_pkl = Some example_columns, mappings_pkl = Some colliding_mappings \<rparr>"

text \<open>A classifier whose class 7 is not a code of the fertilizer mapping.\<close>

definition unmappable_pickles :: "int list pickles" where
  "unmappable_pickles =
    \<lparr> model_pkl = Some (constant_model 7), scaler_pkl = Some example_scaler,
      columns_pkl = Some example_columns, mappings_pkl = Some example_mappings \<rparr>"

definition unmappable_globals :: "int list globals" where
  "unmappable_globals =
    startup_state (constant_model 7) example_scaler example_columns example_mappings"

text \<open>
  Forward mappings with an empty name: soil code 5 and fertilizer code 1 are keys of
  the reverse mappings, with the empty string as their name.
\<close>

definition blank_mappings :: mappings where
  "blank_mappings =
    \<lparr> soil_type_map = [(''Loamy'', 2), ([], 5)],
      crop_type_map = [(''Sugarcane'', 10), (''Wheat'', 11)],
      fertilizer_map = [(''Urea'', 0), ([], 1)] \<rparr>"

definition blank_globals :: "int list globals" where
  "blank_globals =
    startup_state (constant_model 1) example_scaler example_columns blank_mappings"

definition blank_soil_input :: FertilizerInput where
  "blank_soil_input = example_input \<lparr> Soil_Type_ID := 5 \<rparr>"




section \<open>Auxiliary facts\<close>

subsection \<open>The data frame operations\<close>

lemma columns_setitem:
  "columns (setitem k v df) = (if k \<in> set (columns df) then columns df else columns df @ [k])"
  by (induction df) (auto simp: setitem_def columns_def)

lemma in_set_setitem:
  "p \<in> set (setitem k v df) \<longleftrightarrow> p = (k, v) \<or> (p \<in> set df \<and> fst p \<noteq> k)"
proof (cases "k \<in> set (columns df)")
  case True
  then obtain x where "(k, x) \<in> set df" by (auto simp: columns_def)
  then show ?thesis using True
    by (cases p) (force simp: setitem_def image_iff split: if_splits)
next
  case False
  then show ?thesis by (cases p) (auto simp: setitem_def columns_def image_iff)
qed

lemma columns_DataFrame0: "columns (DataFrame0 cols) = cols"
  by (simp add: columns_def DataFrame0_def comp_def)

lemma set_DataFrame0: "set (DataFrame0 cols) = (\<lambda>c. (c, 0)) ` set cols"
  by (simp add: DataFrame0_def)

lemma columns_fold_setitem:
  "distinct (map fst kvs) \<Longrightarrow>
   columns (fold (\<lambda>(k, v). setitem k v) kvs df) =
     columns df @ filter (\<lambda>c. c \<notin> set (columns df)) (map fst kvs)"
proof (induction kvs arbitrary: df)
  case Nil
  then show ?case by simp
next
  case (Cons kv kvs)
  obtain k v where kv: "kv = (k, v)" by (cases kv)
  from Cons.prems kv have k: "k \<notin> set (map fst kvs)" and d: "distinct (map fst kvs)"
    by simp_all
  have "filter (\<lambda>c. c \<noteq> k \<and> c \<notin> set (columns df)) (map fst kvs)
      = filter (\<lambda>c. c \<notin> set (columns df)) (map fst kvs)"
    using k by (intro filter_cong) auto
  then show ?case
    using Cons.IH [OF d, of "setitem k v df"] kv by (simp add: columns_setitem)
qed

lemma in_set_fold_setitem:
  "distinct (map fst kvs) \<Longrightarrow>
   p \<in> set (fold (\<lambda>(k, v). setitem k v) kvs df) \<longleftrightarrow>
     p \<in> set kvs \<or> (p \<in> set df \<and> fst p \<notin> fst ` set kvs)"
proof (induction kvs arbitrary: df)
  case Nil
  then show ?case by simp
next
  case (Cons kv kvs)
  obtain k v where kv: "kv = (k, v)" by (cases kv)
  from Cons.prems kv have k: "k \<notin> fst ` set kvs" and d: "distinct (map fst kvs)"
    by simp_all
  from k have k': "(k, x) \<notin> set kvs" for x by force
  show ?case
    using Cons.IH [OF d, of "setitem k v df"] kv k k'
    by (auto simp: in_set_setitem)
qed

lemma numeric_assignments_fold:
  "numeric_assignments cols data =
     fold (\<lambda>(k, v). setitem k v) (numeric_values data) (DataFrame0 cols)"
  by (simp add: numeric_assignments_def numeric_values_def Let_def)

lemma map_fst_numeric_values: "map fst (numeric_values data) = numeric_columns"
  by (simp add: numeric_values_def numeric_columns_def)

lemma distinct_numeric_columns: "distinct numeric_columns"
  by (simp add: numeric_columns_def)

lemma columns_numeric_assignments:
  "columns (numeric_assignments cols data) =
     cols @ filter (\<lambda>c. c \<notin> set cols) numeric_columns"
  by (simp add: numeric_assignments_fold columns_fold_setitem map_fst_numeric_values
      distinct_numeric_columns columns_DataFrame0)

lemma in_set_numeric_assignments:
  "p \<in> set (numeric_assignments cols data) \<longleftrightarrow>
     p \<in> set (numeric_values data) \<or>
     (fst p \<in> set cols \<and> fst p \<notin> set numeric_columns \<and> snd p = 0)"
proof -
  have "fst ` set (numeric_values data) = set numeric_columns"
    using map_fst_numeric_values [of data] by (metis set_map)
  then show ?thesis
    by (cases p) (auto simp: numeric_assignments_fold in_set_fold_setitem
        map_fst_numeric_values distinct_numeric_columns set_DataFrame0)
qed

lemma columns_one_hot_assignments:
  "columns (one_hot_assignments s c df) = columns df"
  by (simp add: one_hot_assignments_def Let_def columns_setitem)

lemma columns_feature_row:
  "columns (feature_row cols data s c) =
     cols @ filter (\<lambda>c. c \<notin> set cols) numeric_columns"
  by (simp add: feature_row_def columns_one_hot_assignments columns_numeric_assignments)

subsection \<open>The derived one-hot columns\<close>

lemma soil_col_not_numeric: "''Soil_Type_'' @ s \<notin> set numeric_columns"
  by (simp add: numeric_columns_def)

lemma crop_col_not_numeric: "''Crop_Type_'' @ s \<notin> set numeric_columns"
  by (simp add: numeric_columns_def)

lemma soil_col_neq_crop_col: "''Soil_Type_'' @ s \<noteq> ''Crop_Type_'' @ c"
  by simp

lemma in_set_guarded_setitem:
  "p \<in> set (if k \<in> set (columns df) then setitem k v df else df) \<longleftrightarrow>
     (p = (k, v) \<and> k \<in> set (columns df)) \<or> (p \<in> set df \<and> fst p \<noteq> k)"
  by (cases p) (force simp: in_set_setitem columns_def)

lemma in_set_one_hot_assignments:
  "p \<in> set (one_hot_assignments s c df) \<longleftrightarrow>
     (p = (''Crop_Type_'' @ c, 1) \<and> ''Crop_Type_'' @ c \<in> set (columns df)) \<or>
     (p = (''Soil_Type_'' @ s, 1) \<and> ''Soil_Type_'' @ s \<in> set (columns df)) \<or>
     (p \<in> set df \<and> fst p \<noteq> ''Soil_Type_'' @ s \<and> fst p \<noteq> ''Crop_Type_'' @ c)"
proof -
  let ?sc = "''Soil_Type_'' @ s" and ?cc = "''Crop_Type_'' @ c"
  let ?df1 = "if ?sc \<in> set (columns df) then setitem ?sc 1 df else df"
  have cols: "columns ?df1 = columns df" by (simp add: columns_setitem)
  have "one_hot_assignments s c df =
          (if ?cc \<in> set (columns ?df1) then setitem ?cc 1 ?df1 else ?df1)"
    by (simp add: one_hot_assignments_def Let_def)
  then have "p \<in> set (one_hot_assignments s c df) \<longleftrightarrow>
      (p = (?cc, 1) \<and> ?cc \<in> set (columns ?df1)) \<or> (p \<in> set ?df1 \<and> fst p \<noteq> ?cc)"
    by (simp only: in_set_guarded_setitem)
  also have "\<dots> \<longleftrightarrow> (p = (?cc, 1) \<and> ?cc \<in> set (columns df)) \<or>
      (((p = (?sc, 1) \<and> ?sc \<in> set (columns df)) \<or> (p \<in> set df \<and> fst p \<noteq> ?sc))
        \<and> fst p \<noteq> ?cc)"
    by (simp only: cols in_set_guarded_setitem)
  also have "\<dots> \<longleftrightarrow> (p = (?cc, 1) \<and> ?cc \<in> set (columns df)) \<or>
      (p = (?sc, 1) \<and> ?sc \<in> set (columns df)) \<or>
      (p \<in> set df \<and> fst p \<noteq> ?sc \<and> fst p \<noteq> ?cc)"
    using soil_col_neq_crop_col [of s c] by auto
  finally show ?thesis .
qed

subsection \<open>The handler and its calls\<close>

lemma recommend_fertilizer_resolved:
  assumes "reverse_soil_map g (Soil_Type_ID data) = Some sn" "sn \<noteq> []"
    and "reverse_crop_map g (Crop_Type_ID data) = Some cn" "cn \<noteq> []"
  shows "recommend_fertilizer g data =
           predict_and_decode g (feature_row (model_columns g) data sn cn)"
  using assms by (simp add: recommend_fertilizer_def py_not_def feature_row_def)

lemma calls_predict_and_decode:
  "calls (predict_and_decode g df) \<noteq> [] \<and> hd (calls (predict_and_decode g df)) = Transform df"
  by (simp add: predict_and_decode_def Let_def split: sum.splits list.splits)

lemma response_predict_and_decode_cases:
  "(\<exists>n. response (predict_and_decode g df) = Inr n) \<or>
   (\<exists>d. response (predict_and_decode g df) = Inl (HTTPException 500 d))"
  by (simp add: predict_and_decode_def Let_def internal_error_def split: sum.splits list.splits)

lemma load_artifacts_present:
  "load_artifacts \<lparr> model_pkl = Some m, scaler_pkl = Some s, columns_pkl = Some cols,
      mappings_pkl = Some bm \<rparr> = Inr (startup_state m s cols bm)"
  by (simp add: load_artifacts_def startup_state_def)

lemma transform_in_calls_predict_and_decode:
  "Transform df \<in> set (calls (predict_and_decode g row)) \<Longrightarrow> df = row"
  by (auto simp: predict_and_decode_def Let_def split: sum.splits list.splits if_splits)

lemma transform_in_calls_recommend:
  assumes "Transform df \<in> set (calls (recommend_fertilizer g data))"
  shows "\<exists>sn cn. df = feature_row (model_columns g) data sn cn"
proof -
  from assms have "df = one_hot_assignments (the (reverse_soil_map g (Soil_Type_ID data)))
      (the (reverse_crop_map g (Crop_Type_ID data)))
      (numeric_assignments (model_columns g) data)"
    by (auto simp: recommend_fertilizer_def Let_def split: if_splits
        dest: transform_in_calls_predict_and_decode)
  then show ?thesis unfolding feature_row_def by blast
qed

lemma length_feature_row:
  "length (feature_row cols data s c) =
     length cols + length (filter (\<lambda>c. c \<notin> set cols) numeric_columns)"
proof -
  have "length (feature_row cols data s c) = length (columns (feature_row cols data s c))"
    by (simp add: columns_def)
  then show ?thesis by (simp add: columns_feature_row)
qed

subsection \<open>Values of the one-hot columns\<close>

lemma soil_column_simps:
  "soil_column (''Soil_Type_'' @ s)" "\<not> soil_column (''Crop_Type_'' @ s)"
  "c \<in> set numeric_columns \<Longrightarrow> \<not> soil_column c"
  by (auto simp: soil_column_def numeric_columns_def)

lemma crop_column_simps:
  "crop_column (''Crop_Type_'' @ s)" "\<not> crop_column (''Soil_Type_'' @ s)"
  "c \<in> set numeric_columns \<Longrightarrow> \<not> crop_column c"
  by (auto simp: crop_column_def numeric_columns_def)

lemma numeric_values_key: "p \<in> set (numeric_values data) \<Longrightarrow> fst p \<in> set numeric_columns"
  using map_fst_numeric_values [of data] by (metis image_eqI set_map)

lemma soil_columns_zero:
  assumes "''Soil_Type_'' @ sn \<notin> set cols" and "(c, x) \<in> set (feature_row cols data sn cn)"
    and "soil_column c"
  shows "x = 0"
proof -
  have notin: "''Soil_Type_'' @ sn \<notin> set (columns (numeric_assignments cols data))"
    using assms(1) soil_col_not_numeric [of sn] by (simp add: columns_numeric_assignments)
  from assms(2) have "(c, x) \<in> set (numeric_assignments cols data)"
    using notin assms(3) soil_column_simps(2) [of cn]
    by (auto simp: feature_row_def in_set_one_hot_assignments)
  then show ?thesis
    using assms(3) soil_column_simps(3) [of c] numeric_values_key [of "(c, x)" data]
    by (auto simp: in_set_numeric_assignments)
qed

lemma crop_columns_zero:
  assumes "''Crop_Type_'' @ cn \<notin> set cols" and "(c, x) \<in> set (feature_row cols data sn cn)"
    and "crop_column c"
  shows "x = 0"
proof -
  have notin: "''Crop_Type_'' @ cn \<notin> set (columns (numeric_assignments cols data))"
    using assms(1) crop_col_not_numeric [of cn] by (simp add: columns_numeric_assignments)
  from assms(2) have "(c, x) \<in> set (numeric_assignments cols data)"
    using notin assms(3) crop_column_simps(2) [of sn]
    by (auto simp: feature_row_def in_set_one_hot_assignments)
  then show ?thesis
    using assms(3) crop_column_simps(3) [of c] numeric_values_key [of "(c, x)" data]
    by (auto simp: in_set_numeric_assignments)
qed

lemma response_predict_and_decode_not_400:
  "response (predict_and_decode g df) \<noteq> Inl (HTTPException 400 d)"
  using response_predict_and_decode_cases [of g df] by auto

subsection \<open>The example artifacts, evaluated\<close>

lemma example_globals_simps:
  "model_columns example_globals = example_columns"
  "scaler example_globals = example_scaler"
  "model example_globals = example_model"
  "reverse_soil_map example_globals = [0 \<mapsto> ''Black'', 2 \<mapsto> ''Loamy'', 4 \<mapsto> ''Sandy'']"
  "reverse_crop_map example_globals = [0 \<mapsto> ''Barley'', 10 \<mapsto> ''Sugarcane'', 11 \<mapsto> ''Wheat'']"
  "reverse_fertilizer_map example_globals = [0 \<mapsto> ''Urea'', 1 \<mapsto> ''DAP'']"
  by (simp_all add: example_globals_def startup_state_def example_mappings_def reverse_map_def)

lemma feature_row_black_barley:
  "feature_row example_columns black_barley_input ''Black'' ''Barley'' =
    [(''Temparature'', 34), (''Humidity'', 65), (''Moisture'', 54), (''Nitrogen'', 38),
     (''Potassium'', 0), (''Phosphorous'', 0), (''Soil_Type_Loamy'', 0),
     (''Soil_Type_Sandy'', 0), (''Crop_Type_Sugarcane'', 0), (''Crop_Type_Wheat'', 0)]"
  by code_simp

lemma feature_row_example:
  "feature_row example_columns example_input ''Loamy'' ''Sugarcane'' =
    [(''Temparature'', 34), (''Humidity'', 65), (''Moisture'', 54), (''Nitrogen'', 38),
     (''Potassium'', 0), (''Phosphorous'', 0), (''Soil_Type_Loamy'', 1),
     (''Soil_Type_Sandy'', 0), (''Crop_Type_Sugarcane'', 1), (''Crop_Type_Wheat'', 0)]"
  by code_simp

lemma scenario_value_simps:
  "scenario_value ''Temparature'' = 34" "scenario_value ''Humidity'' = 65"
  "scenario_value ''Moisture'' = 54" "scenario_value ''Nitrogen'' = 38"
  "scenario_value ''Potassium'' = 0" "scenario_value ''Phosphorous'' = 0"
  "scenario_value ''Soil_Type_Loamy'' = 1" "scenario_value ''Crop_Type_Sugarcane'' = 1"
  by code_simp+

lemma numeric_values_example:
  "numeric_values example_input =
    [(''Temparature'', 34), (''Humidity'', 65), (''Moisture'', 54), (''Nitrogen'', 38),
     (''Potassium'', 0), (''Phosphorous'', 0)]"
  by (simp add: numeric_values_def example_input_def)

subsection \<open>The reverse mappings\<close>

lemma fold_reverse_update:
  "fold (\<lambda>(k, v) r. r(v \<mapsto> k)) m r0 c =
     (case filter (\<lambda>(k, v). v = c) m of [] \<Rightarrow> r0 c | x # xs \<Rightarrow> Some (fst (last (x # xs))))"
  by (induction m arbitrary: r0) (auto split: list.splits)

lemma reverse_map_last:
  "reverse_map m c =
     (case filter (\<lambda>(k, v). v = c) m of [] \<Rightarrow> None | x # xs \<Rightarrow> Some (fst (last (x # xs))))"
  by (simp add: reverse_map_def fold_reverse_update)

lemma reverse_map_Some_in_set:
  assumes "reverse_map m c = Some n"
  shows "(n, c) \<in> set m"
proof -
  let ?xs = "filter (\<lambda>(k, v). v = c) m"
  from assms have ne: "?xs \<noteq> []" and n: "n = fst (last ?xs)"
    by (auto simp: reverse_map_last split: list.splits)
  from ne have "last ?xs \<in> set ?xs" by (rule last_in_set)
  then have "last ?xs \<in> set m" and "snd (last ?xs) = c" by auto
  with n show ?thesis by (metis prod.collapse)
qed

lemma reverse_map_of_entry:
  assumes "(n, c) \<in> set m"
  shows "reverse_map m c = Some (fst (last (filter (\<lambda>(k, v). v = c) m)))"
proof -
  from assms have "filter (\<lambda>(k, v). v = c) m \<noteq> []"
    by (auto simp: filter_empty_conv)
  then show ?thesis by (auto simp: reverse_map_last split: list.splits)
qed

subsection \<open>Responses of the handler\<close>

lemma response_predict_and_decode_Inr:
  assumes "response (predict_and_decode g df) = Inr n"
  shows "n \<noteq> [] \<and> (\<exists>k. reverse_fertilizer_map g k = Some n)"
  using assms
  by (auto simp: predict_and_decode_def Let_def py_not_def
      split: sum.splits list.splits if_splits)

lemma response_recommend_fertilizer_Inr:
  assumes "response (recommend_fertilizer g data) = Inr n"
  shows "n \<noteq> [] \<and> (\<exists>k. reverse_fertilizer_map g k = Some n)"
proof -
  from assms obtain df where "response (predict_and_decode g df) = Inr n"
    by (auto simp: recommend_fertilizer_def Let_def split: if_splits)
  then show ?thesis by (rule response_predict_and_decode_Inr)
qed

lemma load_artifacts_reverse_fertilizer_map:
  assumes "load_artifacts p = Inr g"
  shows "reverse_fertilizer_map g = reverse_map (fertilizer_map (backend_mappings g))"
  using assms by (auto simp: load_artifacts_def split: option.splits)

lemma predict_and_decode_success:
  assumes "scaler g df = Inr xs" and "model g xs = Inr (k # ks)"
    and "reverse_fertilizer_map g k = Some n" and "n \<noteq> []"
  shows "response (predict_and_decode g df) = Inr n"
  using assms by (simp add: predict_and_decode_def py_not_def)

lemma example_scaler_example_row:
  "example_scaler (feature_row example_columns example_input ''Loamy'' ''Sugarcane'')
     = Inr [34, 65, 54, 38, 0, 0, 1, 0, 1, 0]"
  unfolding feature_row_example by code_simp

lemma internal_error_of_scaler:
  assumes "scaler g df = Inl e"
  shows "response (predict_and_decode g df) =
           Inl (HTTPException 500 (''An internal server error occurred: '' @ message e))"
  using assms by (simp add: predict_and_decode_def internal_error_def)

lemma numeric_value_in_feature_row:
  assumes "(c, v) \<in> set (numeric_values data)"
  shows "(c, v) \<in> set (feature_row cols data sn cn)"
proof -
  from assms have c: "c \<in> set numeric_columns"
    using numeric_values_key [of "(c, v)" data] by simp
  then have "c \<noteq> ''Soil_Type_'' @ sn" and "c \<noteq> ''Crop_Type_'' @ cn"
    using soil_col_not_numeric [of sn] crop_col_not_numeric [of cn] by auto
  with assms show ?thesis
    by (simp add: feature_row_def in_set_one_hot_assignments in_set_numeric_assignments)
qed

lemma drifted_globals_simps:
  "model_columns drifted_globals = drifted_columns"
  "reverse_soil_map drifted_globals = [0 \<mapsto> ''Black'', 2 \<mapsto> ''Loamy'', 4 \<mapsto> ''Sandy'']"
  "reverse_crop_map drifted_globals = [0 \<mapsto> ''Barley'', 10 \<mapsto> ''Sugarcane'', 11 \<mapsto> ''Wheat'']"
  by (simp_all add: drifted_globals_def startup_state_def example_mappings_def reverse_map_def)

lemma strict_drifted_globals_simps:
  "model_columns strict_drifted_globals = drifted_columns"
  "scaler strict_drifted_globals = example_scaler"
  "reverse_soil_map strict_drifted_globals = [0 \<mapsto> ''Black'', 2 \<mapsto> ''Loamy'', 4 \<mapsto> ''Sandy'']"
  "reverse_crop_map strict_drifted_globals =
     [0 \<mapsto> ''Barley'', 10 \<mapsto> ''Sugarcane'', 11 \<mapsto> ''Wheat'']"
  by (simp_all add: strict_drifted_globals_def startup_state_def example_mappings_def
      reverse_map_def)

lemma feature_row_drifted:
  "feature_row drifted_columns example_input ''Loamy'' ''Sugarcane'' =
    [(''Humidity'', 65), (''Moisture'', 54), (''Nitrogen'', 38), (''Potassium'', 0),
     (''Phosphorous'', 0), (''Soil_Type_Loamy'', 1), (''Crop_Type_Sugarcane'', 1),
     (''Temparature'', 34)]"
  by code_simp

lemma blank_globals_simps:
  "model_columns blank_globals = example_columns"
  "scaler blank_globals = example_scaler"
  "model blank_globals = constant_model 1"
  "reverse_soil_map blank_globals = [2 \<mapsto> ''Loamy'', 5 \<mapsto> []]"
  "reverse_crop_map blank_globals = [10 \<mapsto> ''Sugarcane'', 11 \<mapsto> ''Wheat'']"
  "reverse_fertilizer_map blank_globals = [0 \<mapsto> ''Urea'', 1 \<mapsto> []]"
  by (simp_all add: blank_globals_def startup_state_def blank_mappings_def reverse_map_def)

subsection \<open>The handler on the store\<close>



























section \<open>Rejection of unknown category IDs\<close>

text \<open>
  Claim C1. When the soil ID or the crop ID of the request has no entry in its reverse
  mapping, \<^verbatim>\<open>recommend_fertilizer\<close> raises the 400 \<^verbatim>\<open>HTTPException\<close>
  (InvalidCategory), and the call log is empty: neither \<^verbatim>\<open>scaler.transform\<close>
  nor \<^verbatim>\<open>model.predict\<close> has been invoked.
\<close>

theorem recommend_invalid_category:
  assumes "Soil_Type_ID data \<notin> dom (reverse_soil_map g)
         \<or> Crop_Type_ID data \<notin> dom (reverse_crop_map g)"
  shows "response (recommend_fertilizer g data) =
           Inl (HTTPException 400 ''Invalid Soil Type or Crop Type ID provided.'')
       \<and> calls (recommend_fertilizer g data) = []"
  using assms by (auto simp: recommend_fertilizer_def py_not_def domIff)

theorem recommend_invalid_category_witness:
  "Soil_Type_ID unknown_soil_input \<notin> dom (reverse_soil_map example_globals)
   \<and> response (recommend_fertilizer example_globals unknown_soil_input) =
       Inl (HTTPException 400 ''Invalid Soil Type or Crop Type ID provided.'')
   \<and> calls (recommend_fertilizer example_globals unknown_soil_input) = []"
proof -
  have h: "Soil_Type_ID unknown_soil_input \<notin> dom (reverse_soil_map example_globals)"
    by (simp add: unknown_soil_input_def example_input_def example_globals_def
        startup_state_def example_mappings_def reverse_map_def)
  from recommend_invalid_category [OF disjI1 [OF h]] h show ?thesis by simp
qed

section \<open>A schema that lacks a numeric column\<close>

text \<open>
  Claim C2, amended. The claim says that the construction of the row fails, fatally,
  when the schema lacks one of the six numeric column names. The code does neither:
  the assignment \<^verbatim>\<open>input_df[name] = value\<close> appends the missing column. For
  every schema that lacks a numeric column \<open>c\<close> and every request whose category
  names resolve, the built row has the schema's columns followed by the missing
  numeric columns, so it is longer than the schema, and column \<open>c\<close> holds the
  request's value; the handler passes this row to the scaler; an exception that the
  scaler raises on it is answered with a 500 response for this request only; and a
  start-up that finds the four files succeeds with this schema.
\<close>

theorem missing_numeric_column_appended:
  assumes "c \<in> set numeric_columns" and "c \<notin> set (model_columns g)"
    and "reverse_soil_map g (Soil_Type_ID data) = Some sn" and "sn \<noteq> []"
    and "reverse_crop_map g (Crop_Type_ID data) = Some cn" and "cn \<noteq> []"
  shows "columns (feature_row (model_columns g) data sn cn) =
           model_columns g @ filter (\<lambda>x. x \<notin> set (model_columns g)) numeric_columns
       \<and> c \<in> set (columns (feature_row (model_columns g) data sn cn))
       \<and> length (model_columns g) < length (feature_row (model_columns g) data sn cn)
       \<and> (\<forall>v. (c, v) \<in> set (numeric_values data) \<longrightarrow>
             (c, v) \<in> set (feature_row (model_columns g) data sn cn))
       \<and> calls (recommend_fertilizer g data) \<noteq> []
       \<and> hd (calls (recommend_fertilizer g data)) =
           Transform (feature_row (model_columns g) data sn cn)
       \<and> (\<forall>e. scaler g (feature_row (model_columns g) data sn cn) = Inl e \<longrightarrow>
             response (recommend_fertilizer g data) =
               Inl (HTTPException 500 (''An internal server error occurred: '' @ message e)))
       \<and> load_artifacts \<lparr> model_pkl = Some (model g), scaler_pkl = Some (scaler g),
             columns_pkl = Some (model_columns g),
             mappings_pkl = Some (backend_mappings g) \<rparr> =
           Inr (startup_state (model g) (scaler g) (model_columns g) (backend_mappings g))"
proof -
  let ?cols = "model_columns g"
  let ?row = "feature_row ?cols data sn cn"
  have eq: "recommend_fertilizer g data = predict_and_decode g ?row"
    using assms(3-6) by (rule recommend_fertilizer_resolved)
  have c1: "columns ?row = ?cols @ filter (\<lambda>x. x \<notin> set ?cols) numeric_columns"
    by (rule columns_feature_row)
  have mem: "c \<in> set (filter (\<lambda>x. x \<notin> set ?cols) numeric_columns)"
    using assms(1,2) by simp
  then have c2: "c \<in> set (columns ?row)" by (simp add: c1)
  from mem have "0 < length (filter (\<lambda>x. x \<notin> set ?cols) numeric_columns)"
    by (metis length_pos_if_in_set)
  then have c3: "length ?cols < length ?row" by (simp add: length_feature_row)
  have c4: "\<forall>v. (c, v) \<in> set (numeric_values data) \<longrightarrow> (c, v) \<in> set ?row"
    by (simp add: numeric_value_in_feature_row)
  have c5: "calls (recommend_fertilizer g data) \<noteq> []"
    and c6: "hd (calls (recommend_fertilizer g data)) = Transform ?row"
    using calls_predict_and_decode [of g ?row] by (simp_all add: eq)
  have c7: "\<forall>e. scaler g ?row = Inl e \<longrightarrow> response (recommend_fertilizer g data) =
      Inl (HTTPException 500 (''An internal server error occurred: '' @ message e))"
    by (simp add: eq internal_error_of_scaler)
  note c9 = load_artifacts_present [of "model g" "scaler g" ?cols "backend_mappings g"]
  from c1 c2 c3 c4 c5 c6 c7 c9 show ?thesis by (intro conjI)
qed

theorem missing_numeric_column_appended_witness:
  "''Temparature'' \<in> set numeric_columns
   \<and> ''Temparature'' \<notin> set (model_columns strict_drifted_globals)
   \<and> reverse_soil_map strict_drifted_globals (Soil_Type_ID example_input) = Some ''Loamy''
   \<and> reverse_crop_map strict_drifted_globals (Crop_Type_ID example_input) = Some ''Sugarcane''
   \<and> (''Temparature'', 34) \<in> set (numeric_values example_input)
   \<and> length (model_columns strict_drifted_globals) <
       length (feature_row (model_columns strict_drifted_globals) example_input
         ''Loamy'' ''Sugarcane'')
   \<and> hd (calls (recommend_fertilizer strict_drifted_globals example_input)) =
       Transform
        [(''Humidity'', 65), (''Moisture'', 54), (''Nitrogen'', 38), (''Potassium'', 0),
         (''Phosphorous'', 0), (''Soil_Type_Loamy'', 1), (''Crop_Type_Sugarcane'', 1),
         (''Temparature'', 34)]
   \<and> response (recommend_fertilizer strict_drifted_globals example_input) =
       Inl (HTTPException 500
         (''An internal server error occurred: '' @
          ''The feature names should match those that were passed during fit.''))"
proof -
  let ?g = strict_drifted_globals
  have a: "''Temparature'' \<in> set numeric_columns" by (simp add: numeric_columns_def)
  have b: "''Temparature'' \<notin> set (model_columns ?g)"
    by (simp add: strict_drifted_globals_simps drifted_columns_def)
  have soil: "reverse_soil_map ?g (Soil_Type_ID example_input) = Some ''Loamy''"
    and crop: "reverse_crop_map ?g (Crop_Type_ID example_input) = Some ''Sugarcane''"
    by (simp_all add: strict_drifted_globals_simps example_input_def)
  have ne: "''Loamy'' \<noteq> []" "''Sugarcane'' \<noteq> []" by simp_all
  have v: "(''Temparature'', 34) \<in> set (numeric_values example_input)"
    by (simp add: numeric_values_example)
  have sc: "scaler ?g (feature_row (model_columns ?g) example_input ''Loamy'' ''Sugarcane'') =
      Inl (PyException ''The feature names should match those that were passed during fit.'')"
    unfolding strict_drifted_globals_simps feature_row_drifted by code_simp
  note t = missing_numeric_column_appended [OF a b soil ne(1) crop ne(2)]
  have len: "length (model_columns ?g) <
       length (feature_row (model_columns ?g) example_input ''Loamy'' ''Sugarcane'')"
    using t by (elim conjE)
  have "hd (calls (recommend_fertilizer ?g example_input)) =
      Transform (feature_row (model_columns ?g) example_input ''Loamy'' ''Sugarcane'')"
    using t by (elim conjE)
  then have h: "hd (calls (recommend_fertilizer ?g example_input)) =
       Transform
        [(''Humidity'', 65), (''Moisture'', 54), (''Nitrogen'', 38), (''Potassium'', 0),
         (''Phosphorous'', 0), (''Soil_Type_Loamy'', 1), (''Crop_Type_Sugarcane'', 1),
         (''Temparature'', 34)]"
    by (simp only: strict_drifted_globals_simps(1) feature_row_drifted)
  have "\<forall>e. scaler ?g (feature_row (model_columns ?g) example_input ''Loamy'' ''Sugarcane'')
        = Inl e \<longrightarrow>
      response (recommend_fertilizer ?g example_input) =
        Inl (HTTPException 500 (''An internal server error occurred: '' @ message e))"
    using t by (elim conjE)
  with sc have r: "response (recommend_fertilizer ?g example_input) =
       Inl (HTTPException 500
         (''An internal server error occurred: '' @
          ''The feature names should match those that were passed during fit.''))"
    by simp
  from a b soil crop v len h r show ?thesis by (intro conjI)
qed

text \<open>
  With a column list that lacks \<^verbatim>\<open>Temparature\<close> and a scaler that takes any
  row, start-up succeeds and the example request is answered with a recommendation;
  the scaler has received a row of eight columns.
\<close>

theorem missing_numeric_column_counterexample:
  "''Temparature'' \<in> set numeric_columns
   \<and> ''Temparature'' \<notin> set (model_columns drifted_globals)
   \<and> load_artifacts drifted_pickles = Inr drifted_globals
   \<and> calls (recommend_fertilizer drifted_globals example_input) =
       [Transform
         [(''Humidity'', 65), (''Moisture'', 54), (''Nitrogen'', 38), (''Potassium'', 0),
          (''Phosphorous'', 0), (''Soil_Type_Loamy'', 1), (''Crop_Type_Sugarcane'', 1),
          (''Temparature'', 34)],
        Predict [65, 54, 38, 0, 0, 1, 1, 34]]
   \<and> response (recommend_fertilizer drifted_globals example_input) = Inr ''Urea''"
proof -
  have a: "''Temparature'' \<in> set numeric_columns" by (simp add: numeric_columns_def)
  have b: "''Temparature'' \<notin> set (model_columns drifted_globals)"
    by (simp add: drifted_globals_simps drifted_columns_def)
  have l: "load_artifacts drifted_pickles = Inr drifted_globals"
    by (simp add: drifted_pickles_def drifted_globals_def load_artifacts_present)
  have c: "calls (recommend_fertilizer drifted_globals example_input) =
       [Transform
         [(''Humidity'', 65), (''Moisture'', 54), (''Nitrogen'', 38), (''Potassium'', 0),
          (''Phosphorous'', 0), (''Soil_Type_Loamy'', 1), (''Crop_Type_Sugarcane'', 1),
          (''Temparature'', 34)],
        Predict [65, 54, 38, 0, 0, 1, 1, 34]]"
    by code_simp
  have r: "response (recommend_fertilizer drifted_globals example_input) = Inr ''Urea''"
    by code_simp
  from a b l c r show ?thesis by (intro conjI)
qed

section \<open>Forward mappings with a shared code\<close>

text \<open>
  Claim C3, amended. The claim says that building the reverse mapping fails when two
  names of a domain share a code. The dict comprehension does not fail: when two
  different names of a forward mapping share the code \<open>c\<close>, the reverse mapping
  sends \<open>c\<close> to the name that comes last among the entries with that code, and a
  start-up that finds the four files completes with the three reverse mappings built in
  this way.
\<close>

theorem reverse_map_collision_last_wins:
  assumes "(n1, c) \<in> set m" and "(n2, c) \<in> set m" and "n1 \<noteq> n2"
    and "m \<in> {soil_type_map bm, crop_type_map bm, fertilizer_map bm}"
    and "mappings_pkl p = Some bm"
    and "model_pkl p \<noteq> None" and "scaler_pkl p \<noteq> None" and "columns_pkl p \<noteq> None"
  shows "\<exists>g. load_artifacts p = Inr g
           \<and> reverse_soil_map g = reverse_map (soil_type_map bm)
           \<and> reverse_crop_map g = reverse_map (crop_type_map bm)
           \<and> reverse_fertilizer_map g = reverse_map (fertilizer_map bm)
           \<and> reverse_map m c = Some (fst (last (filter (\<lambda>(k, v). v = c) m)))"
  using assms(5-8) reverse_map_of_entry [OF assms(1)]
  by (auto simp: load_artifacts_def)

theorem reverse_map_collision_last_wins_witness:
  "(''Clayey'', 1) \<in> set (soil_type_map colliding_mappings)
   \<and> (''Sandy'', 1) \<in> set (soil_type_map colliding_mappings)
   \<and> ''Clayey'' \<noteq> ''Sandy''
   \<and> mappings_pkl colliding_pickles = Some colliding_mappings
   \<and> (\<exists>g. load_artifacts colliding_pickles = Inr g
          \<and> reverse_soil_map g = reverse_map (soil_type_map colliding_mappings)
          \<and> reverse_map (soil_type_map colliding_mappings) 1 = Some ''Sandy'')"
proof -
  have a: "(''Clayey'', 1) \<in> set (soil_type_map colliding_mappings)"
    and b: "(''Sandy'', 1) \<in> set (soil_type_map colliding_mappings)"
    by (simp_all add: colliding_mappings_def)
  have c: "''Clayey'' \<noteq> ''Sandy''" by simp
  have d: "soil_type_map colliding_mappings \<in> {soil_type_map colliding_mappings,
      crop_type_map colliding_mappings, fertilizer_map colliding_mappings}" by simp
  have e: "mappings_pkl colliding_pickles = Some colliding_mappings"
    and f: "model_pkl colliding_pickles \<noteq> None" "scaler_pkl colliding_pickles \<noteq> None"
      "columns_pkl colliding_pickles \<noteq> None"
    by (simp_all add: colliding_pickles_def)
  have l: "fst (last (filter (\<lambda>(k, v). v = 1) (soil_type_map colliding_mappings))) = ''Sandy''"
    by (simp add: colliding_mappings_def)
  from reverse_map_collision_last_wins [OF a b c d e f] a b c e
  show ?thesis unfolding l by blast
qed

text \<open>
  With the soil names \<^verbatim>\<open>Clayey\<close> and \<^verbatim>\<open>Sandy\<close> both at code 1,
  start-up succeeds and code 1 is decoded as \<^verbatim>\<open>Sandy\<close>.
\<close>

theorem reverse_map_collision_counterexample:
  "(''Clayey'', 1) \<in> set (soil_type_map colliding_mappings)
   \<and> (''Sandy'', 1) \<in> set (soil_type_map colliding_mappings)
   \<and> load_artifacts colliding_pickles =
       Inr (startup_state example_model example_scaler example_columns colliding_mappings)
   \<and> reverse_soil_map
        (startup_state example_model example_scaler example_columns colliding_mappings) 1
       = Some ''Sandy''"
  by (simp add: colliding_pickles_def load_artifacts_present colliding_mappings_def
      startup_state_def reverse_map_def)

section \<open>One-hot columns that the schema lacks\<close>

text \<open>
  Claim C4. When both category names resolve and the derived soil column
  \<^verbatim>\<open>Soil_Type_\<close> followed by the name (or the derived crop column) is not in the
  schema, the request is not rejected: the handler goes on to the scaler with the built
  row, the response is not the 400 rejection, and every soil (respectively crop)
  one-hot column of that row is 0.
\<close>

theorem absent_one_hot_column_tolerated:
  assumes "reverse_soil_map g (Soil_Type_ID data) = Some sn" and "sn \<noteq> []"
    and "reverse_crop_map g (Crop_Type_ID data) = Some cn" and "cn \<noteq> []"
    and "''Soil_Type_'' @ sn \<notin> set (model_columns g)
       \<or> ''Crop_Type_'' @ cn \<notin> set (model_columns g)"
  shows "recommend_fertilizer g data =
           predict_and_decode g (feature_row (model_columns g) data sn cn)
       \<and> response (recommend_fertilizer g data) \<noteq>
           Inl (HTTPException 400 ''Invalid Soil Type or Crop Type ID provided.'')
       \<and> calls (recommend_fertilizer g data) \<noteq> []
       \<and> hd (calls (recommend_fertilizer g data)) =
           Transform (feature_row (model_columns g) data sn cn)
       \<and> (''Soil_Type_'' @ sn \<notin> set (model_columns g) \<longrightarrow>
           (\<forall>(c, x) \<in> set (feature_row (model_columns g) data sn cn).
              soil_column c \<longrightarrow> x = 0))
       \<and> (''Crop_Type_'' @ cn \<notin> set (model_columns g) \<longrightarrow>
           (\<forall>(c, x) \<in> set (feature_row (model_columns g) data sn cn).
              crop_column c \<longrightarrow> x = 0))"
proof -
  let ?row = "feature_row (model_columns g) data sn cn"
  have eq: "recommend_fertilizer g data = predict_and_decode g ?row"
    using assms(1-4) by (rule recommend_fertilizer_resolved)
  have soil: "\<forall>(c, x) \<in> set ?row. soil_column c \<longrightarrow> x = 0"
    if "''Soil_Type_'' @ sn \<notin> set (model_columns g)"
    using soil_columns_zero [OF that] by blast
  have crop: "\<forall>(c, x) \<in> set ?row. crop_column c \<longrightarrow> x = 0"
    if "''Crop_Type_'' @ cn \<notin> set (model_columns g)"
    using crop_columns_zero [OF that] by blast
  show ?thesis
    using eq soil crop calls_predict_and_decode [of g ?row]
      response_predict_and_decode_not_400 [of g ?row]
    by simp
qed

theorem absent_one_hot_column_tolerated_witness:
  "reverse_soil_map example_globals (Soil_Type_ID black_barley_input) = Some ''Black''
   \<and> reverse_crop_map example_globals (Crop_Type_ID black_barley_input) = Some ''Barley''
   \<and> ''Soil_Type_'' @ ''Black'' \<notin> set (model_columns example_globals)
   \<and> ''Crop_Type_'' @ ''Barley'' \<notin> set (model_columns example_globals)
   \<and> response (recommend_fertilizer example_globals black_barley_input) \<noteq>
       Inl (HTTPException 400 ''Invalid Soil Type or Crop Type ID provided.'')
   \<and> hd (calls (recommend_fertilizer example_globals black_barley_input)) =
       Transform
        [(''Temparature'', 34), (''Humidity'', 65), (''Moisture'', 54), (''Nitrogen'', 38),
         (''Potassium'', 0), (''Phosphorous'', 0), (''Soil_Type_Loamy'', 0),
         (''Soil_Type_Sandy'', 0), (''Crop_Type_Sugarcane'', 0), (''Crop_Type_Wheat'', 0)]"
proof -
  have soil: "reverse_soil_map example_globals (Soil_Type_ID black_barley_input) = Some ''Black''"
    and crop: "reverse_crop_map example_globals (Crop_Type_ID black_barley_input) = Some ''Barley''"
    by (simp_all add: example_globals_simps black_barley_input_def)
  have absent: "''Soil_Type_'' @ ''Black'' \<notin> set (model_columns example_globals)"
    and absent': "''Crop_Type_'' @ ''Barley'' \<notin> set (model_columns example_globals)"
    by (simp_all add: example_globals_simps example_columns_def)
  have ne: "''Black'' \<noteq> []" "''Barley'' \<noteq> []" by simp_all
  note t = absent_one_hot_column_tolerated [OF soil ne(1) crop ne(2) disjI1 [OF absent]]
  have r: "response (recommend_fertilizer example_globals black_barley_input) \<noteq>
       Inl (HTTPException 400 ''Invalid Soil Type or Crop Type ID provided.'')"
    using t by (elim conjE)
  have "hd (calls (recommend_fertilizer example_globals black_barley_input)) =
      Transform (feature_row (model_columns example_globals) black_barley_input
        ''Black'' ''Barley'')"
    using t by (elim conjE)
  then have h: "hd (calls (recommend_fertilizer example_globals black_barley_input)) =
       Transform
        [(''Temparature'', 34), (''Humidity'', 65), (''Moisture'', 54), (''Nitrogen'', 38),
         (''Potassium'', 0), (''Phosphorous'', 0), (''Soil_Type_Loamy'', 0),
         (''Soil_Type_Sandy'', 0), (''Crop_Type_Sugarcane'', 0), (''Crop_Type_Wheat'', 0)]"
    by (simp only: example_globals_simps(1) feature_row_black_barley)
  from soil crop absent absent' r h show ?thesis by (intro conjI)
qed

section \<open>The scenario of the specification\<close>

text \<open>
  Claim C5. For the example request (34, 65, 54, soil 2, crop 10, 38, 0, 0), a soil
  mapping with 2 for \<^verbatim>\<open>Loamy\<close>, a crop mapping with 10 for
  \<^verbatim>\<open>Sugarcane\<close> and a schema that has both one-hot columns, the row handed to
  the scaler has the six numeric columns with the request's values,
  \<^verbatim>\<open>Soil_Type_Loamy\<close> and \<^verbatim>\<open>Crop_Type_Sugarcane\<close> at 1, and 0 in every
  other column.
\<close>

theorem scenario_row:
  assumes "reverse_soil_map g 2 = Some ''Loamy''"
    and "reverse_crop_map g 10 = Some ''Sugarcane''"
    and "''Soil_Type_Loamy'' \<in> set (model_columns g)"
    and "''Crop_Type_Sugarcane'' \<in> set (model_columns g)"
  shows "calls (recommend_fertilizer g example_input) \<noteq> []
       \<and> hd (calls (recommend_fertilizer g example_input)) =
           Transform (feature_row (model_columns g) example_input ''Loamy'' ''Sugarcane'')
       \<and> set (columns (feature_row (model_columns g) example_input ''Loamy'' ''Sugarcane'')) =
           set (model_columns g) \<union> set numeric_columns
       \<and> (\<forall>(c, x) \<in> set (feature_row (model_columns g) example_input ''Loamy'' ''Sugarcane'').
             x = scenario_value c)"
proof -
  let ?cols = "model_columns g"
  let ?row = "feature_row ?cols example_input ''Loamy'' ''Sugarcane''"
  have ids: "Soil_Type_ID example_input = 2" "Crop_Type_ID example_input = 10"
    by (simp_all add: example_input_def)
  have eq: "recommend_fertilizer g example_input = predict_and_decode g ?row"
    using assms(1,2) by (intro recommend_fertilizer_resolved) (simp_all add: ids)
  have cols: "set (columns ?row) = set ?cols \<union> set numeric_columns"
    by (auto simp: columns_feature_row)
  have num: "x = scenario_value c" if "(c, x) \<in> set (numeric_values example_input)" for c x
    using that unfolding numeric_values_example
    by (auto simp only: set_simps insert_iff empty_iff prod.inject scenario_value_simps)
  have zero: "scenario_value c = 0"
    if "c \<notin> set numeric_columns" "c \<noteq> ''Soil_Type_Loamy''" "c \<noteq> ''Crop_Type_Sugarcane''" for c
    using that by (simp add: scenario_value_def numeric_columns_def)
  note one = scenario_value_simps(7,8)
  have vals: "x = scenario_value c" if "(c, x) \<in> set ?row" for c x
  proof -
    from that consider
      (crop) "c = ''Crop_Type_'' @ ''Sugarcane''" "x = 1"
      | (soil) "c = ''Soil_Type_'' @ ''Loamy''" "x = 1"
      | (rest) "(c, x) \<in> set (numeric_assignments ?cols example_input)"
          "c \<noteq> ''Soil_Type_'' @ ''Loamy''" "c \<noteq> ''Crop_Type_'' @ ''Sugarcane''"
      unfolding feature_row_def in_set_one_hot_assignments by auto
    then show ?thesis
    proof cases
      case crop
      then show ?thesis using one(2) by simp
    next
      case soil
      then show ?thesis using one(1) by simp
    next
      case rest
      from rest(1) consider "(c, x) \<in> set (numeric_values example_input)"
        | "c \<notin> set numeric_columns" "x = 0"
        unfolding in_set_numeric_assignments by auto
      then show ?thesis
      proof cases
        case 1
        then show ?thesis by (rule num)
      next
        case 2
        with rest(2,3) zero [of c] show ?thesis by simp
      qed
    qed
  qed
  show ?thesis
    using eq cols vals calls_predict_and_decode [of g ?row] by auto
qed

theorem scenario_row_witness:
  "reverse_soil_map example_globals 2 = Some ''Loamy''
   \<and> reverse_crop_map example_globals 10 = Some ''Sugarcane''
   \<and> ''Soil_Type_Loamy'' \<in> set (model_columns example_globals)
   \<and> ''Crop_Type_Sugarcane'' \<in> set (model_columns example_globals)
   \<and> hd (calls (recommend_fertilizer example_globals example_input)) =
       Transform
        [(''Temparature'', 34), (''Humidity'', 65), (''Moisture'', 54), (''Nitrogen'', 38),
         (''Potassium'', 0), (''Phosphorous'', 0), (''Soil_Type_Loamy'', 1),
         (''Soil_Type_Sandy'', 0), (''Crop_Type_Sugarcane'', 1), (''Crop_Type_Wheat'', 0)]"
proof -
  have soil: "reverse_soil_map example_globals 2 = Some ''Loamy''"
    and crop: "reverse_crop_map example_globals 10 = Some ''Sugarcane''"
    by (simp_all add: example_globals_simps)
  have sc: "''Soil_Type_Loamy'' \<in> set (model_columns example_globals)"
    and cc: "''Crop_Type_Sugarcane'' \<in> set (model_columns example_globals)"
    by (simp_all add: example_globals_simps example_columns_def)
  have "hd (calls (recommend_fertilizer example_globals example_input)) =
      Transform (feature_row (model_columns example_globals) example_input
        ''Loamy'' ''Sugarcane'')"
    using scenario_row [OF soil crop sc cc] by (elim conjE)
  then have h: "hd (calls (recommend_fertilizer example_globals example_input)) =
       Transform
        [(''Temparature'', 34), (''Humidity'', 65), (''Moisture'', 54), (''Nitrogen'', 38),
         (''Potassium'', 0), (''Phosphorous'', 0), (''Soil_Type_Loamy'', 1),
         (''Soil_Type_Sandy'', 0), (''Crop_Type_Sugarcane'', 1), (''Crop_Type_Wheat'', 0)]"
    by (simp only: example_globals_simps(1) feature_row_example)
  from soil crop sc cc h show ?thesis by (intro conjI)
qed

section \<open>Alignment of the row with the schema\<close>

text \<open>
  Claim C6, amended. As stated (for every schema) the claim fails: a numeric column
  that the schema lacks is appended to the row. For every request and every schema
  that contains the six numeric column names, the row has exactly the schema's columns,
  in the schema's order, and as many entries as the schema; this holds for the row
  built for any pair of names and for every row that the handler passes to the scaler.
\<close>

theorem feature_row_schema_aligned:
  assumes "set numeric_columns \<subseteq> set (model_columns g)"
  shows "columns (feature_row (model_columns g) data sn cn) = model_columns g
       \<and> length (feature_row (model_columns g) data sn cn) = length (model_columns g)
       \<and> (\<forall>df. Transform df \<in> set (calls (recommend_fertilizer g data)) \<longrightarrow>
             columns df = model_columns g \<and> length df = length (model_columns g))"
proof -
  have aligned: "columns (feature_row (model_columns g) data s c) = model_columns g" for s c
  proof -
    have "filter (\<lambda>c. c \<notin> set (model_columns g)) numeric_columns = []"
      using assms by (auto simp: filter_empty_conv)
    then show ?thesis by (simp add: columns_feature_row)
  qed
  have len: "length (feature_row (model_columns g) data s c) = length (model_columns g)" for s c
    using aligned [of s c] unfolding columns_def by (metis length_map)
  show ?thesis
    using aligned len by (auto dest!: transform_in_calls_recommend)
qed

theorem feature_row_schema_aligned_witness:
  "set numeric_columns \<subseteq> set (model_columns example_globals)
   \<and> columns (feature_row (model_columns example_globals) example_input ''Loamy'' ''Sugarcane'')
       = example_columns
   \<and> length (feature_row (model_columns example_globals) example_input ''Loamy'' ''Sugarcane'')
       = 10
   \<and> Transform (feature_row example_columns example_input ''Loamy'' ''Sugarcane'')
       \<in> set (calls (recommend_fertilizer example_globals example_input))"
proof -
  have cols: "model_columns example_globals = example_columns"
    by (simp add: example_globals_def startup_state_def)
  have h: "set numeric_columns \<subseteq> set (model_columns example_globals)"
    by (simp add: cols numeric_columns_def example_columns_def)
  have soil: "reverse_soil_map example_globals (Soil_Type_ID example_input) = Some ''Loamy''"
    by (simp add: example_globals_def startup_state_def example_mappings_def reverse_map_def
        example_input_def)
  have crop: "reverse_crop_map example_globals (Crop_Type_ID example_input) = Some ''Sugarcane''"
    by (simp add: example_globals_def startup_state_def example_mappings_def reverse_map_def
        example_input_def)
  have "recommend_fertilizer example_globals example_input =
      predict_and_decode example_globals
        (feature_row example_columns example_input ''Loamy'' ''Sugarcane'')"
    using recommend_fertilizer_resolved [OF soil _ crop] by (simp add: cols)
  then have t: "Transform (feature_row example_columns example_input ''Loamy'' ''Sugarcane'')
       \<in> set (calls (recommend_fertilizer example_globals example_input))"
    using calls_predict_and_decode
      [of example_globals "feature_row example_columns example_input ''Loamy'' ''Sugarcane''"]
    by (metis hd_in_set)
  have "length example_columns = 10" by (simp add: example_columns_def)
  with feature_row_schema_aligned [OF h, of example_input "''Loamy''" "''Sugarcane''"] h t
  show ?thesis by (simp add: cols)
qed

text \<open>
  With a schema of seven columns that lacks \<^verbatim>\<open>Temparature\<close>, the row has
  eight entries.
\<close>

theorem feature_row_length_counterexample:
  "columns (feature_row drifted_columns example_input ''Loamy'' ''Sugarcane'')
     = drifted_columns @ [''Temparature'']
   \<and> length (feature_row drifted_columns example_input ''Loamy'' ''Sugarcane'') = 8
   \<and> length drifted_columns = 7"
  by (simp add: columns_feature_row length_feature_row drifted_columns_def numeric_columns_def)

section \<open>The recommendation\<close>

text \<open>
  Claim C7, amended. Resolved category IDs do not guarantee a recommendation: the
  scaler or the model may raise, and the predicted class may have no name. For
  artifacts loaded at start-up, whenever \<^verbatim>\<open>recommend_fertilizer\<close> returns a
  recommendation, it is a non-empty name of the forward fertilizer mapping; and it
  returns the name of the predicted class when both category names are non-empty, the
  scaler and the model return, and the predicted class has a non-empty name.
\<close>

theorem recommend_returns_fertilizer_name:
  assumes "load_artifacts p = Inr g"
  shows "(\<forall>n. response (recommend_fertilizer g data) = Inr n \<longrightarrow>
            n \<noteq> [] \<and> n \<in> names_of (fertilizer_map (backend_mappings g)))
       \<and> (reverse_soil_map g (Soil_Type_ID data) = Some sn \<and> sn \<noteq> []
          \<and> reverse_crop_map g (Crop_Type_ID data) = Some cn \<and> cn \<noteq> []
          \<and> scaler g (feature_row (model_columns g) data sn cn) = Inr xs
          \<and> model g xs = Inr (k # ks)
          \<and> reverse_fertilizer_map g k = Some name \<and> name \<noteq> []
          \<longrightarrow> response (recommend_fertilizer g data) = Inr name)"
proof (intro conjI allI impI)
  fix n assume r: "response (recommend_fertilizer g data) = Inr n"
  from response_recommend_fertilizer_Inr [OF r]
  obtain k' where "n \<noteq> []" and "reverse_fertilizer_map g k' = Some n" by blast
  then have "(n, k') \<in> set (fertilizer_map (backend_mappings g))"
    using load_artifacts_reverse_fertilizer_map [OF assms]
    by (simp add: reverse_map_Some_in_set)
  then have "n \<in> names_of (fertilizer_map (backend_mappings g))"
    unfolding names_of_def by force
  with \<open>n \<noteq> []\<close> show "n \<noteq> []" and "n \<in> names_of (fertilizer_map (backend_mappings g))"
    by simp_all
next
  assume h: "reverse_soil_map g (Soil_Type_ID data) = Some sn \<and> sn \<noteq> []
          \<and> reverse_crop_map g (Crop_Type_ID data) = Some cn \<and> cn \<noteq> []
          \<and> scaler g (feature_row (model_columns g) data sn cn) = Inr xs
          \<and> model g xs = Inr (k # ks)
          \<and> reverse_fertilizer_map g k = Some name \<and> name \<noteq> []"
  then have "recommend_fertilizer g data =
      predict_and_decode g (feature_row (model_columns g) data sn cn)"
    by (intro recommend_fertilizer_resolved) simp_all
  moreover have "response (predict_and_decode g (feature_row (model_columns g) data sn cn))
      = Inr name"
    using h predict_and_decode_success [of g _ xs k ks name] by blast
  ultimately show "response (recommend_fertilizer g data) = Inr name" by simp
qed

theorem recommend_returns_fertilizer_name_witness:
  "load_artifacts example_pickles = Inr example_globals
   \<and> reverse_soil_map example_globals (Soil_Type_ID example_input) = Some ''Loamy''
   \<and> reverse_crop_map example_globals (Crop_Type_ID example_input) = Some ''Sugarcane''
   \<and> reverse_fertilizer_map example_globals 0 = Some ''Urea''
   \<and> response (recommend_fertilizer example_globals example_input) = Inr ''Urea''
   \<and> ''Urea'' \<in> names_of (fertilizer_map (backend_mappings example_globals))"
proof -
  have l: "load_artifacts example_pickles = Inr example_globals"
    by (simp add: example_pickles_def example_globals_def load_artifacts_present)
  have soil: "reverse_soil_map example_globals (Soil_Type_ID example_input) = Some ''Loamy''"
    and crop: "reverse_crop_map example_globals (Crop_Type_ID example_input) = Some ''Sugarcane''"
    and fert: "reverse_fertilizer_map example_globals 0 = Some ''Urea''"
    by (simp_all add: example_globals_simps example_input_def)
  have sc: "scaler example_globals
      (feature_row (model_columns example_globals) example_input ''Loamy'' ''Sugarcane'')
      = Inr [34, 65, 54, 38, 0, 0, 1, 0, 1, 0]"
    by (simp only: example_globals_simps example_scaler_example_row)
  have md: "model example_globals [34, 65, 54, 38, 0, 0, 1, 0, 1, 0] = Inr (0 # [])"
    by (simp add: example_globals_simps example_model_def)
  note t = recommend_returns_fertilizer_name [OF l, of example_input "''Loamy''" "''Sugarcane''"
      "[34, 65, 54, 38, 0, 0, 1, 0, 1, 0]" 0 "[]" "''Urea''"]
  from t soil crop fert sc md
  have r: "response (recommend_fertilizer example_globals example_input) = Inr ''Urea''"
    by simp
  with t have "''Urea'' \<in> names_of (fertilizer_map (backend_mappings example_globals))"
    by blast
  with l soil crop fert r show ?thesis by (intro conjI)
qed

text \<open>
  With a classifier that predicts class 7, which is no code of the fertilizer mapping,
  the example request has both IDs in the reverse mappings and is answered with the
  500 response of line 109.
\<close>

theorem recommend_unmappable_counterexample:
  "load_artifacts unmappable_pickles = Inr unmappable_globals
   \<and> Soil_Type_ID example_input \<in> dom (reverse_soil_map unmappable_globals)
   \<and> Crop_Type_ID example_input \<in> dom (reverse_crop_map unmappable_globals)
   \<and> response (recommend_fertilizer unmappable_globals example_input) =
       Inl (HTTPException 500 ''Could not map prediction to a fertilizer name.'')"
proof -
  have l: "load_artifacts unmappable_pickles = Inr unmappable_globals"
    by (simp add: unmappable_pickles_def unmappable_globals_def load_artifacts_present)
  have r: "response (recommend_fertilizer unmappable_globals example_input) =
       Inl (HTTPException 500 ''Could not map prediction to a fertilizer name.'')"
    by code_simp
  have s: "Soil_Type_ID example_input \<in> dom (reverse_soil_map unmappable_globals)"
    and c: "Crop_Type_ID example_input \<in> dom (reverse_crop_map unmappable_globals)"
    by (simp_all add: unmappable_globals_def startup_state_def example_mappings_def
        reverse_map_def example_input_def)
  from l s c r show ?thesis by (intro conjI)
qed

section \<open>Empty names are treated as missing\<close>

text \<open>
  Claim C8. The guards test the truth value of the looked-up name. When the reverse
  soil or crop mapping sends the ID to the empty string, the request is rejected with
  the 400 response, without any call to the scaler or the model, although the ID is a
  key of the mapping. When the category names are non-empty, the scaler and the model
  return, and the fertilizer reverse mapping sends the predicted class to the empty
  string, the handler raises the 500 response of line 109.
\<close>

theorem empty_name_is_falsy:
  "(reverse_soil_map g (Soil_Type_ID data) = Some []
      \<or> reverse_crop_map g (Crop_Type_ID data) = Some []
    \<longrightarrow> response (recommend_fertilizer g data) =
          Inl (HTTPException 400 ''Invalid Soil Type or Crop Type ID provided.'')
        \<and> calls (recommend_fertilizer g data) = [])
   \<and> (reverse_soil_map g (Soil_Type_ID data) = Some sn \<and> sn \<noteq> []
      \<and> reverse_crop_map g (Crop_Type_ID data) = Some cn \<and> cn \<noteq> []
      \<and> scaler g (feature_row (model_columns g) data sn cn) = Inr xs
      \<and> model g xs = Inr (k # ks)
      \<and> reverse_fertilizer_map g k = Some []
    \<longrightarrow> response (recommend_fertilizer g data) =
          Inl (HTTPException 500 ''Could not map prediction to a fertilizer name.''))"
proof (intro conjI impI)
  assume "reverse_soil_map g (Soil_Type_ID data) = Some []
      \<or> reverse_crop_map g (Crop_Type_ID data) = Some []"
  then have "py_not (reverse_soil_map g (Soil_Type_ID data))
      \<or> py_not (reverse_crop_map g (Crop_Type_ID data))"
    by (auto simp: py_not_def)
  then show "response (recommend_fertilizer g data) =
      Inl (HTTPException 400 ''Invalid Soil Type or Crop Type ID provided.'')"
    and "calls (recommend_fertilizer g data) = []"
    by (simp_all add: recommend_fertilizer_def Let_def)
next
  assume h: "reverse_soil_map g (Soil_Type_ID data) = Some sn \<and> sn \<noteq> []
      \<and> reverse_crop_map g (Crop_Type_ID data) = Some cn \<and> cn \<noteq> []
      \<and> scaler g (feature_row (model_columns g) data sn cn) = Inr xs
      \<and> model g xs = Inr (k # ks)
      \<and> reverse_fertilizer_map g k = Some []"
  then have "recommend_fertilizer g data =
      predict_and_decode g (feature_row (model_columns g) data sn cn)"
    by (intro recommend_fertilizer_resolved) simp_all
  moreover have "response (predict_and_decode g (feature_row (model_columns g) data sn cn)) =
      Inl (HTTPException 500 ''Could not map prediction to a fertilizer name.'')"
    using h by (simp add: predict_and_decode_def py_not_def)
  ultimately show "response (recommend_fertilizer g data) =
      Inl (HTTPException 500 ''Could not map prediction to a fertilizer name.'')"
    by simp
qed

theorem empty_name_is_falsy_witness:
  "Soil_Type_ID blank_soil_input \<in> dom (reverse_soil_map blank_globals)
   \<and> reverse_soil_map blank_globals (Soil_Type_ID blank_soil_input) = Some []
   \<and> response (recommend_fertilizer blank_globals blank_soil_input) =
       Inl (HTTPException 400 ''Invalid Soil Type or Crop Type ID provided.'')
   \<and> calls (recommend_fertilizer blank_globals blank_soil_input) = []
   \<and> reverse_soil_map blank_globals (Soil_Type_ID example_input) = Some ''Loamy''
   \<and> reverse_crop_map blank_globals (Crop_Type_ID example_input) = Some ''Sugarcane''
   \<and> model blank_globals [34, 65, 54, 38, 0, 0, 1, 0, 1, 0] = Inr [1]
   \<and> reverse_fertilizer_map blank_globals 1 = Some []
   \<and> response (recommend_fertilizer blank_globals example_input) =
       Inl (HTTPException 500 ''Could not map prediction to a fertilizer name.'')"
proof -
  have s5: "reverse_soil_map blank_globals (Soil_Type_ID blank_soil_input) = Some []"
    by (simp add: blank_globals_simps blank_soil_input_def)
  then have d: "Soil_Type_ID blank_soil_input \<in> dom (reverse_soil_map blank_globals)"
    by (simp add: domIff)
  have soil: "reverse_soil_map blank_globals (Soil_Type_ID example_input) = Some ''Loamy''"
    and crop: "reverse_crop_map blank_globals (Crop_Type_ID example_input) = Some ''Sugarcane''"
    and fert: "reverse_fertilizer_map blank_globals 1 = Some []"
    by (simp_all add: blank_globals_simps example_input_def)
  have sc: "scaler blank_globals
      (feature_row (model_columns blank_globals) example_input ''Loamy'' ''Sugarcane'')
      = Inr [34, 65, 54, 38, 0, 0, 1, 0, 1, 0]"
    by (simp only: blank_globals_simps example_scaler_example_row)
  have md: "model blank_globals [34, 65, 54, 38, 0, 0, 1, 0, 1, 0] = Inr [1]"
    by (simp add: blank_globals_simps constant_model_def)
  note t1 = empty_name_is_falsy [of blank_globals blank_soil_input, THEN conjunct1]
  note t2 = empty_name_is_falsy [of blank_globals example_input "''Loamy''" "''Sugarcane''"
      "[34, 65, 54, 38, 0, 0, 1, 0, 1, 0]" 1 "[]", THEN conjunct2]
  from t1 s5 have r1: "response (recommend_fertilizer blank_globals blank_soil_input) =
       Inl (HTTPException 400 ''Invalid Soil Type or Crop Type ID provided.'')"
    and r2: "calls (recommend_fertilizer blank_globals blank_soil_input) = []"
    by blast+
  from t2 soil crop sc md fert
  have r3: "response (recommend_fertilizer blank_globals example_input) =
       Inl (HTTPException 500 ''Could not map prediction to a fertilizer name.'')"
    by simp
  from d s5 r1 r2 soil crop md fert r3 show ?thesis by (intro conjI)
qed

section \<open>The shared state is only read\<close>





end
